theory Spec2Isabelle
  imports Main
begin

section \<open>Primitive values\<close>

text \<open>
  \<open>decree\<close>, \<open>ballot\<close> and the duplication id are integer typedefs declared outside
  the two source files. The functions embedded here only compare decrees and take
  \<open>std::max\<close> of them; no arithmetic is done on them, so they are unbounded integers here.
\<close>

type_synonym decree = int
type_synonym ballot = int
type_synonym dupid_t = int

text \<open>\<open>dsn::gpid\<close>: the pair of application id and partition index.\<close>

record gpid =
  app_id :: int
  partition_index :: int

text \<open>
  Modelled from the spec: the enumeration \<open>duplication_status::type\<close> is declared in an
  interface file that is not among the sources. The sources name \<open>DS_START\<close> (running)
  and \<open>DS_PAUSE\<close> (paused); the spec speaks of "any other requested status".
  \<open>DS_OTHER n\<close> stands for any enumerator other than these two.
\<close>

datatype duplication_status = DS_START | DS_PAUSE | DS_OTHER nat

text \<open>
  Modelled from the spec: \<open>duplication_status_to_string\<close> is generated code that is not
  among the sources; it yields the name of an enumerator.
\<close>

fun duplication_status_to_string :: "duplication_status \<Rightarrow> string" where
  "duplication_status_to_string DS_START = ''DS_START''"
| "duplication_status_to_string DS_PAUSE = ''DS_PAUSE''"
| "duplication_status_to_string (DS_OTHER n) = ''DS_OTHER''"

text \<open>\<open>duplication_progress\<close>: the watermark pair of a duplication task.\<close>

record duplication_progress =
  last_decree :: decree
  confirmed_decree :: decree

text \<open>
  \<open>duplication_entry\<close>: the task descriptor sent by the metadata service. Its \<open>progress\<close>
  member is a \<open>std::map\<close> from partition index to confirmed decree.
\<close>

record duplication_entry =
  ent_dupid :: dupid_t
  ent_remote_address :: string
  ent_status :: duplication_status
  ent_progress :: "int \<rightharpoonup> decree"

subsection \<open>The owning replica\<close>

text \<open>
  The coordinator reads the owning replica through accessors only: \<open>get_gpid()\<close>,
  \<open>get_app_info()->app_name\<close>, \<open>last_committed_decree()\<close> and
  \<open>private_log()->max_gced_decree(gpid)\<close>. The replica is a record of what these return.
\<close>

record mutation_log =
  max_gced_decree :: "int \<times> int \<Rightarrow> decree"

record replica =
  get_gpid :: gpid
  app_name :: string
  last_committed_decree :: decree
  private_log :: mutation_log

subsection \<open>Fatal assertions\<close>

text \<open>
  \<open>dassert\<close> and \<open>dassert_replica\<close> take the asserted expression first, then a format
  string and its arguments. When the expression is false they log the message and dump
  core: the process halts. A halted call is \<open>Inl\<close> of the failed assertion's format
  string; the rest of the function is the continuation.
\<close>

datatype fatal = Assertion_failed string

definition dassert_replica :: "bool \<Rightarrow> string \<Rightarrow> (fatal + 'a) \<Rightarrow> fatal + 'a" where
  "dassert_replica x fmt k = (if x then k else Inl (Assertion_failed fmt))"

definition dassert :: "bool \<Rightarrow> string \<Rightarrow> (fatal + 'a) \<Rightarrow> fatal + 'a" where
  "dassert x fmt k = (if x then k else Inl (Assertion_failed fmt))"

text \<open>
  A string literal in the position of a condition is a pointer to its first character,
  which is never null: as a condition it is true, whatever the text.
\<close>

definition literal_as_condition :: "string \<Rightarrow> bool" where
  "literal_as_condition s = True"

section \<open>The duplication coordinator\<close>

text \<open>
  The pipeline base class (\<open>from\<close>, \<open>link\<close>, \<open>fork\<close>, \<open>run_pipeline\<close>, \<open>pause\<close>) is
  not among the sources. The coordinator records every call it makes on it, oldest first.
\<close>

datatype stage = Load | Ship | Load_private

datatype pipeline_call = Link stage stage | Fork_link stage stage | Run_pipeline | Pause

record replica_duplicator =
  dup_id :: dupid_t
  remote_cluster_address :: string
  replica_of :: replica
  status :: duplication_status
  progress :: duplication_progress
  last_recorded_confirmed_decree :: decree
  pipeline :: "pipeline_call list"

definition get_max_gced_decree :: "replica_duplicator \<Rightarrow> decree" where
  "get_max_gced_decree s =
     max_gced_decree (private_log (replica_of s))
       (app_id (get_gpid (replica_of s)), partition_index (get_gpid (replica_of s)))"

text \<open>
  \<open>init_metrics_timer\<close>: the counters and the periodic timer are metrics plumbing; the
  one field of the coordinator it writes is \<open>_last_recorded_confirmed_decree\<close>.
\<close>

definition init_metrics_timer :: "replica_duplicator \<Rightarrow> replica_duplicator" where
  "init_metrics_timer s =
     s\<lparr>last_recorded_confirmed_decree := confirmed_decree (progress s)\<rparr>"

text \<open>\<open>start\<close>: logs the progress and calls \<open>run_pipeline()\<close>.\<close>

definition start :: "replica_duplicator \<Rightarrow> replica_duplicator" where
  "start s = s\<lparr>pipeline := pipeline s @ [Run_pipeline]\<rparr>"

definition pause :: "replica_duplicator \<Rightarrow> replica_duplicator" where
  "pause s = s\<lparr>pipeline := pipeline s @ [Pause]\<rparr>"

text \<open>
  The constructor. Both \<open>dassert_replica\<close> calls come before any field but \<open>_status\<close> is
  written. \<open>ent.progress.find(get_gpid().get_partition_index())\<close> is the lookup of the
  map at the partition index; \<open>it != ent.progress.end()\<close> says that the key is there.
\<close>

definition replica_duplicator_ctor ::
    "duplication_entry \<Rightarrow> replica \<Rightarrow> fatal + replica_duplicator" where
  "replica_duplicator_ctor ent r =
     dassert_replica (ent_status ent = DS_START \<or> ent_status ent = DS_PAUSE)
       ''invalid duplication status: {}''
       (let it = ent_progress ent (partition_index (get_gpid r)) in
        dassert_replica (it \<noteq> None) ''''
          (case it of
             None \<Rightarrow> Inl (Assertion_failed '''')
           | Some second \<Rightarrow>
               (let s0 = \<lparr>dup_id = ent_dupid ent,
                          remote_cluster_address = ent_remote_address ent,
                          replica_of = r,
                          status = ent_status ent,
                          progress = \<lparr>last_decree = second, confirmed_decree = second\<rparr>,
                          last_recorded_confirmed_decree = 0,
                          pipeline = []\<rparr>;
                    s1 = init_metrics_timer s0;
                    s2 = s1\<lparr>pipeline := pipeline s1 @
                            [Link Load Ship, Link Ship Load, Fork_link Load_private Ship]\<rparr>
                in Inr (if status s2 = DS_START then start s2 else s2))))"

subsection \<open>The status snapshot\<close>

text \<open>
  \<open>to_string\<close> builds a JSON object with \<open>AddMember\<close>, which appends a member to the
  object, and hands the document to the writer of the JSON library. The writer is a
  parameter here. \<open>rapidjson::StringRef(p)\<close> of a character pointer reads up to the
  first NUL; with a length it reads that many characters.
\<close>

datatype json_value = JInt int | JString string

type_synonym json_document = "(string \<times> json_value) list"

definition SetObject :: json_document where
  "SetObject = []"

definition AddMember :: "json_document \<Rightarrow> string \<Rightarrow> json_value \<Rightarrow> json_document" where
  "AddMember doc name v = doc @ [(name, v)]"

definition StringRef_cstr :: "string \<Rightarrow> string" where
  "StringRef_cstr s = takeWhile (\<lambda>c. c \<noteq> CHR 0x00) s"

definition to_string_document :: "replica_duplicator \<Rightarrow> json_document" where
  "to_string_document s =
     (let doc = SetObject;
          doc = AddMember doc ''dupid'' (JInt (dup_id s));
          doc = AddMember doc ''status''
                  (JString (StringRef_cstr (duplication_status_to_string (status s))));
          doc = AddMember doc ''remote'' (JString (StringRef_cstr (remote_cluster_address s)));
          doc = AddMember doc ''confirmed'' (JInt (confirmed_decree (progress s)));
          doc = AddMember doc ''app'' (JString (app_name (replica_of s)))
      in doc)"

definition to_string :: "(json_document \<Rightarrow> string) \<Rightarrow> replica_duplicator \<Rightarrow> string" where
  "to_string writer s = writer (to_string_document s)"

subsection \<open>Status transitions\<close>

text \<open>
  \<open>update_status_if_needed\<close>. The last branch is
  \<open>dassert("unexpected duplication status (%s)", duplication_status_to_string(next_status))\<close>:
  the asserted expression is the string literal, the format is the status name.
\<close>

definition update_status_if_needed ::
    "replica_duplicator \<Rightarrow> duplication_status \<Rightarrow> fatal + replica_duplicator" where
  "update_status_if_needed s next_status =
     (if status s = next_status then Inr s
      else
        (let s1 = s\<lparr>status := next_status\<rparr> in
         if next_status = DS_START then Inr (start s1)
         else if next_status = DS_PAUSE then Inr (pause s1)
         else dassert (literal_as_condition ''unexpected duplication status (%s)'')
                (duplication_status_to_string next_status) (Inr s1)))"

subsection \<open>Progress\<close>

text \<open>
  \<open>update_progress\<close> runs under the write lock: one call at a time. The fields are
  written between the two assertions; a call that halts at the second one leaves no state
  behind, the process being gone.
\<close>

definition update_progress ::
    "replica_duplicator \<Rightarrow> duplication_progress \<Rightarrow> fatal + replica_duplicator" where
  "update_progress s p =
     dassert_replica
       (confirmed_decree p \<le> 0 \<or> confirmed_decree (progress s) \<le> confirmed_decree p)
       ''never decrease confirmed_decree: new({}) old({})''
       (let s1 = s\<lparr>progress := (progress s)
                   \<lparr>confirmed_decree := max (confirmed_decree (progress s)) (confirmed_decree p)\<rparr>\<rparr>;
            s2 = s1\<lparr>progress := (progress s1)
                   \<lparr>last_decree := max (last_decree (progress s1)) (last_decree p)\<rparr>\<rparr>
        in dassert_replica (confirmed_decree (progress s2) \<le> last_decree (progress s2))
             ''last_decree({}) should always larger than confirmed_decree({})''
             (Inr s2))"

text \<open>
  A sequence of \<open>update_progress\<close> calls on one coordinator: the states after each call,
  in order; the first call that halts ends the run.
\<close>

fun update_progress_calls ::
    "replica_duplicator \<Rightarrow> duplication_progress list \<Rightarrow> fatal + replica_duplicator list" where
  "update_progress_calls s [] = Inr []"
| "update_progress_calls s (p # ps) =
     (case update_progress s p of
        Inl e \<Rightarrow> Inl e
      | Inr s' \<Rightarrow>
          (case update_progress_calls s' ps of
             Inl e \<Rightarrow> Inl e
           | Inr tr \<Rightarrow> Inr (s' # tr)))"

subsection \<open>Log retention\<close>

text \<open>
  \<open>error_s\<close> is declared outside the sources: \<open>error_s::ok()\<close> is success,
  \<open>error_s::make(code, message)\<close> an error of that code. The message is kept as the
  format string and the list of its arguments.
\<close>

datatype error_code = ERR_OK | ERR_CORRUPTION

datatype error_s = error_s_ok | error_s_make error_code string "int list"

fun error_s_code :: "error_s \<Rightarrow> error_code" where
  "error_s_code error_s_ok = ERR_OK"
| "error_s_code (error_s_make c m args) = c"

definition verify_start_decree :: "replica_duplicator \<Rightarrow> decree \<Rightarrow> error_s" where
  "verify_start_decree s start_decree =
     (let confirmed = confirmed_decree (progress s);
          last = last_decree (progress s);
          max_gced = get_max_gced_decree s
      in if max_gced \<ge> start_decree
         then error_s_make ERR_CORRUPTION
                (''the logs haven't yet duplicated were accidentally truncated '' @
                 ''[max_gced_decree: {}, start_decree: {}, confirmed_decree: {}, last_decree: {}]'')
                [max_gced, start_decree, confirmed, last]
         else error_s_ok)"

section \<open>The split coordinator\<close>

text \<open>
  Of \<open>replica_split_manager\<close> the sources hold the class declaration: the three fields
  with their initial values and comments, and three inline accessors. \<open>_child_gpid\<close>
  starts as \<open>{0, 0}\<close>, \<open>_child_init_ballot\<close> as 0; \<open>_partition_version\<close> is
  \<open>partition_count - 1\<close> in normal cases and \<open>-1\<close> while client requests are rejected.
\<close>

record replica_split_manager =
  child_gpid :: gpid
  child_init_ballot :: ballot
  partition_version :: int

definition get_partition_version :: "'a replica_split_manager_scheme \<Rightarrow> int" where
  "get_partition_version m = partition_version m"

definition get_child_gpid :: "'a replica_split_manager_scheme \<Rightarrow> gpid" where
  "get_child_gpid m = child_gpid m"

definition set_child_gpid ::
    "'a replica_split_manager_scheme \<Rightarrow> gpid \<Rightarrow> 'a replica_split_manager_scheme" where
  "set_child_gpid m pid = m\<lparr>child_gpid := pid\<rparr>"

subsection \<open>The parent's state machine\<close>

text \<open>
  Modelled from the spec: the bodies of the member functions of \<open>replica_split_manager\<close>
  (\<open>on_add_child\<close>, \<open>parent_prepare_states\<close>, \<open>parent_handle_child_catch_up\<close>,
  \<open>parent_check_sync_point_commit\<close>, \<open>register_child_on_meta\<close>,
  \<open>on_register_child_on_meta_reply\<close>, \<open>parent_cleanup_split_context\<close>) are not among the
  sources. The phases are those of the spec's parent-side state machine; the parent's
  state is the three fields of the class together with its own identity, the partition
  count of its application and whether the child has notified catch-up in this attempt.
\<close>

datatype parent_phase = Idle | PreparingChild | WaitingCatchUp | Registering | Active

record parent = replica_split_manager +
  phase :: parent_phase
  parent_gpid :: gpid
  partition_count :: int
  child_caught_up :: bool

text \<open>
  Modelled from the spec: what reaches the parent (the handlers are not among the
  sources). A group-check instruction naming a new child partition by its identity; the
  dispatch of the state transfer; the child's catch-up notification, carrying the child's
  ballot (the child is initialized with the parent's ballot at split start); the commit of
  the sync point; the metadata service's reply to the register-child request, which on
  success publishes the new partition count. Each is handled under the ballot that the
  owning replica reports at that moment. What the parent sends is the register-child
  request, carrying the child's identity and the current ballot.
\<close>

datatype split_event =
    Add_child gpid
  | States_dispatched
  | Child_catch_up ballot
  | Sync_point_committed
  | Register_succeeded int
  | Register_failed

datatype split_output = Register_child gpid ballot

text \<open>
  Modelled from the spec: \<open>parent_check_states\<close> and the split context's life cycle are
  not among the sources. A split attempt is in progress in the three middle phases.
\<close>

definition in_split :: "parent \<Rightarrow> bool" where
  "in_split s = (phase s = PreparingChild \<or> phase s = WaitingCatchUp \<or> phase s = Registering)"

text \<open>
  Modelled from the spec: the body of \<open>parent_cleanup_split_context\<close> is not among the
  sources. The parent discards the split context entirely: the child identity goes back
  to the null identity, the recorded ballot to 0, the partition version to
  \<open>partition_count - 1\<close>, and the parent is idle.
\<close>

definition parent_cleanup_split_context :: "parent \<Rightarrow> parent" where
  "parent_cleanup_split_context s =
     s\<lparr>child_gpid := \<lparr>app_id = 0, partition_index = 0\<rparr>,
       child_init_ballot := 0,
       partition_version := partition_count s - 1,
       phase := Idle,
       child_caught_up := False\<rparr>"

text \<open>
  Modelled from the spec: the handlers of the parent are not among the sources. One
  input handled under the ballot \<open>b\<close>:
  \<^item> during an attempt, a ballot other than the one recorded at split start invalidates
    the attempt unconditionally, whatever the input;
  \<^item> a group-check instruction starts an attempt when none is in progress: the parent
    records the child identity that the instruction names, and the ballot;
  \<^item> the dispatch of the transfer moves on to waiting for the child;
  \<^item> a catch-up notification is taken while waiting for the child, when the ballot it
    carries is the one recorded at split start; a stale one, carrying another ballot, is
    rejected;
  \<^item> the commit of the sync point, once the child has notified, issues the
    register-child request with the current ballot; from here on client requests are
    rejected (partition version \<open>-1\<close>);
  \<^item> a successful reply commits the new partition count and empties the split context;
    a failed one cleans up.
  An input that does not fit the phase is dropped.
\<close>

fun parent_step :: "parent \<Rightarrow> split_event \<times> ballot \<Rightarrow> parent \<times> split_output list" where
  "parent_step s (e, b) =
     (if in_split s \<and> b \<noteq> child_init_ballot s then (parent_cleanup_split_context s, [])
      else
        (case e of
           Add_child c \<Rightarrow>
             if phase s = Idle \<or> phase s = Active
             then (s\<lparr>child_gpid := c,
                     child_init_ballot := b,
                     phase := PreparingChild,
                     child_caught_up := False\<rparr>, [])
             else (s, [])
         | States_dispatched \<Rightarrow>
             if phase s = PreparingChild then (s\<lparr>phase := WaitingCatchUp\<rparr>, []) else (s, [])
         | Child_catch_up cb \<Rightarrow>
             if phase s = WaitingCatchUp \<and> cb = child_init_ballot s
             then (s\<lparr>child_caught_up := True\<rparr>, [])
             else (s, [])
         | Sync_point_committed \<Rightarrow>
             if phase s = WaitingCatchUp \<and> child_caught_up s
             then (s\<lparr>partition_version := - 1, phase := Registering\<rparr>,
                   [Register_child (child_gpid s) b])
             else (s, [])
         | Register_succeeded n \<Rightarrow>
             if phase s = Registering
             then (s\<lparr>child_gpid := \<lparr>app_id = 0, partition_index = 0\<rparr>,
                     child_init_ballot := 0,
                     partition_version := n - 1,
                     phase := Active,
                     partition_count := n,
                     child_caught_up := False\<rparr>, [])
             else (s, [])
         | Register_failed \<Rightarrow>
             if phase s = Registering then (parent_cleanup_split_context s, []) else (s, [])))"

text \<open>
  A parent that is not splitting: the fields as the class initializes them, the
  partition version as in normal cases.
\<close>

definition idle_parent :: "gpid \<Rightarrow> int \<Rightarrow> parent" where
  "idle_parent g n =
     \<lparr>child_gpid = \<lparr>app_id = 0, partition_index = 0\<rparr>,
      child_init_ballot = 0,
      partition_version = n - 1,
      phase = Idle,
      parent_gpid = g,
      partition_count = n,
      child_caught_up = False\<rparr>"

text \<open>
  An execution: the inputs handled in order. The log holds, latest first, the state
  before each input, the input with its ballot, and what the parent sent on it.
\<close>

type_synonym parent_log = "(parent \<times> (split_event \<times> ballot) \<times> split_output list) list"

fun parent_run :: "parent \<Rightarrow> parent_log \<Rightarrow> (split_event \<times> ballot) list \<Rightarrow> parent \<times> parent_log" where
  "parent_run s h [] = (s, h)"
| "parent_run s h (x # xs) =
     parent_run (fst (parent_step s x)) ((s, x, snd (parent_step s x)) # h) xs"

text \<open>
  The partition version before the attempt in progress: that of the latest state of the
  log in which no attempt was in progress.
\<close>

fun pre_split_version :: "parent_log \<Rightarrow> int option" where
  "pre_split_version [] = None"
| "pre_split_version ((s, x, out) # h) =
     (if in_split s then pre_split_version h else Some (partition_version s))"

text \<open>
  An input that confirms catch-up in the state \<open>s\<close>: a catch-up notification that arrives
  while the parent is waiting for the child, is handled under the ballot recorded at
  split start, and carries that same ballot. A notification with any other ballot is
  stale and confirms nothing.
\<close>

fun confirms_catch_up :: "parent \<Rightarrow> split_event \<times> ballot \<Rightarrow> bool" where
  "confirms_catch_up s (Child_catch_up cb, b) =
     (phase s = WaitingCatchUp \<and> b = child_init_ballot s \<and> cb = child_init_ballot s)"
| "confirms_catch_up s (e, b) = False"

text \<open>
  The child has confirmed catch-up in the attempt in progress: going back in the log
  through the states of this one attempt, there is an input that confirmed catch-up.
\<close>

fun caught_up_in_attempt :: "parent_log \<Rightarrow> bool" where
  "caught_up_in_attempt [] = False"
| "caught_up_in_attempt ((s, x, out) # h) =
     (in_split s \<and> (confirms_catch_up s x \<or> caught_up_in_attempt h))"

text \<open>
  Every register-child request of the log was sent on the commit of the sync point, in
  an attempt in which the child had confirmed catch-up before.
\<close>

fun registrations_confirmed :: "parent_log \<Rightarrow> bool" where
  "registrations_confirmed [] = True"
| "registrations_confirmed ((s, x, out) # h) =
     ((out = [] \<or> (fst x = Sync_point_committed \<and> in_split s \<and> caught_up_in_attempt h))
      \<and> registrations_confirmed h)"

section \<open>Concrete values\<close>

text \<open>
  Partition 3 of application 2, whose private log has collected decrees up to 50, and a
  duplication task to a remote cluster with confirmed decree 100 for this partition.
\<close>

definition example_replica :: replica where
  "example_replica =
     \<lparr>get_gpid = \<lparr>app_id = 2, partition_index = 3\<rparr>,
      app_name = ''temp'',
      last_committed_decree = 105,
      private_log = \<lparr>max_gced_decree = (\<lambda>g. if g = (2, 3) then 50 else 0)\<rparr>\<rparr>"

definition example_entry :: "duplication_status \<Rightarrow> duplication_entry" where
  "example_entry st =
     \<lparr>ent_dupid = 1, ent_remote_address = ''onebox2'', ent_status = st,
      ent_progress = [3 \<mapsto> 100]\<rparr>"

text \<open>The coordinator that the constructor builds from these (see \<open>example_ctor\<close>).\<close>

definition example_duplicator :: "duplication_status \<Rightarrow> replica_duplicator" where
  "example_duplicator st =
     \<lparr>dup_id = 1, remote_cluster_address = ''onebox2'', replica_of = example_replica,
      status = st, progress = \<lparr>last_decree = 100, confirmed_decree = 100\<rparr>,
      last_recorded_confirmed_decree = 100,
      pipeline = [Link Load Ship, Link Ship Load, Fork_link Load_private Ship] @
                 (if st = DS_START then [Run_pipeline] else [])\<rparr>"

lemmas example_defs = example_entry_def example_replica_def example_duplicator_def

text \<open>The same partition as a parent that is not splitting, in an application of 8 partitions.\<close>

definition example_parent :: parent where
  "example_parent = idle_parent \<lparr>app_id = 2, partition_index = 3\<rparr> 8"

text \<open>The child that the group-check instruction names for it.\<close>

definition example_child :: gpid where
  "example_child = \<lparr>app_id = 2, partition_index = 11\<rparr>"

lemmas split_eval = parent_cleanup_split_context_def in_split_def idle_parent_def
  example_parent_def example_child_def get_child_gpid_def get_partition_version_def

section \<open>Properties of the duplication coordinator\<close>

lemma example_ctor:
  "replica_duplicator_ctor (example_entry DS_START) example_replica
     = Inr (example_duplicator DS_START)"
  by (simp add: replica_duplicator_ctor_def example_defs dassert_replica_def
      init_metrics_timer_def start_def Let_def)

lemma update_progress_Inr_iff:
  "update_progress s p = Inr s' \<longleftrightarrow>
     (confirmed_decree p \<le> 0 \<or> confirmed_decree (progress s) \<le> confirmed_decree p) \<and>
     max (confirmed_decree (progress s)) (confirmed_decree p)
       \<le> max (last_decree (progress s)) (last_decree p) \<and>
     s' = s\<lparr>progress := \<lparr>last_decree = max (last_decree (progress s)) (last_decree p),
                          confirmed_decree =
                            max (confirmed_decree (progress s)) (confirmed_decree p)\<rparr>\<rparr>"
  by (auto simp: update_progress_def dassert_replica_def Let_def)

text \<open>
  C1, as stated, fails: a call whose \<open>confirmed_decree\<close> is \<open>-1\<close> (no confirmation
  carried, only a new \<open>last_decree\<close>) presents a smaller confirmed decree than the held
  100, and returns normally; the held confirmed decree stays 100 and \<open>last_decree\<close>
  becomes 105.
\<close>

theorem update_progress_regress_not_rejected:
  "confirmed_decree \<lparr>last_decree = 105, confirmed_decree = -1\<rparr>
     < confirmed_decree (progress (example_duplicator DS_START))
   \<and> update_progress (example_duplicator DS_START) \<lparr>last_decree = 105, confirmed_decree = -1\<rparr>
     = Inr ((example_duplicator DS_START)
              \<lparr>progress := \<lparr>last_decree = 105, confirmed_decree = 100\<rparr>\<rparr>)"
  by (simp add: update_progress_Inr_iff example_defs)

text \<open>
  C1, amended: for every call to \<open>update_progress(p)\<close> in which \<open>p.confirmed_decree\<close> is
  positive and strictly smaller than the currently held \<open>confirmed_decree\<close>, the call is
  rejected with a fatal assertion failure: it is neither ignored nor applied.
\<close>

theorem update_progress_rejects_positive_regress:
  "0 < confirmed_decree p \<Longrightarrow> confirmed_decree p < confirmed_decree (progress s) \<Longrightarrow>
   update_progress s p =
     Inl (Assertion_failed ''never decrease confirmed_decree: new({}) old({})'')"
  by (simp add: update_progress_def dassert_replica_def)

theorem update_progress_rejects_positive_regress_witness:
  "(0::int) < confirmed_decree \<lparr>last_decree = 105, confirmed_decree = 99\<rparr>
   \<and> confirmed_decree \<lparr>last_decree = 105, confirmed_decree = 99\<rparr>
       < confirmed_decree (progress (example_duplicator DS_START))
   \<and> update_progress (example_duplicator DS_START) \<lparr>last_decree = 105, confirmed_decree = 99\<rparr>
       = Inl (Assertion_failed ''never decrease confirmed_decree: new({}) old({})'')"
  using update_progress_rejects_positive_regress
    [of "\<lparr>last_decree = 105, confirmed_decree = 99\<rparr>" "example_duplicator DS_START"]
  by (simp add: example_defs)

lemma update_progress_calls_inv:
  "update_progress_calls s ps = Inr tr \<Longrightarrow>
   sorted (map (\<lambda>t. confirmed_decree (progress t)) (s # tr)) \<and>
   (\<forall>t \<in> set tr. confirmed_decree (progress t) \<le> last_decree (progress t))"
proof (induction ps arbitrary: s tr)
  case Nil
  then show ?case by simp
next
  case (Cons p ps)
  from Cons.prems obtain s' tr' where
    step: "update_progress s p = Inr s'" and
    rest: "update_progress_calls s' ps = Inr tr'" and
    tr: "tr = s' # tr'"
    by (auto split: sum.splits)
  from step have le: "confirmed_decree (progress s) \<le> confirmed_decree (progress s')"
    and inv: "confirmed_decree (progress s') \<le> last_decree (progress s')"
    by (auto simp: update_progress_Inr_iff)
  from Cons.IH [OF rest] have
    srt: "sorted (map (\<lambda>t. confirmed_decree (progress t)) (s' # tr'))" and
    all: "\<forall>t \<in> set tr'. confirmed_decree (progress t) \<le> last_decree (progress t)"
    by simp_all
  from srt le have "sorted (map (\<lambda>t. confirmed_decree (progress t)) (s # s' # tr'))"
    by auto
  with all inv tr show ?case by simp
qed

text \<open>
  C2: a call to \<open>update_progress(p)\<close> that does not halt leaves \<open>confirmed_decree\<close> at the
  maximum of the old value and \<open>p.confirmed_decree\<close>, and \<open>last_decree\<close> at the maximum of
  the old value and \<open>p.last_decree\<close>; along every sequence of such calls the confirmed
  decree never decreases (the list of its values, from the starting state on, is sorted)
  and \<open>confirmed_decree \<le> last_decree\<close> holds after every call.
\<close>

theorem update_progress_max_and_monotone:
  "(update_progress s p = Inr s' \<longrightarrow>
      confirmed_decree (progress s') = max (confirmed_decree (progress s)) (confirmed_decree p) \<and>
      last_decree (progress s') = max (last_decree (progress s)) (last_decree p)) \<and>
   (update_progress_calls s ps = Inr tr \<longrightarrow>
      sorted (map (\<lambda>t. confirmed_decree (progress t)) (s # tr)) \<and>
      (\<forall>t \<in> set tr. confirmed_decree (progress t) \<le> last_decree (progress t)))"
  using update_progress_calls_inv [of s ps tr]
  by (simp add: update_progress_Inr_iff)

theorem update_progress_max_and_monotone_witness:
  "update_progress (example_duplicator DS_START) \<lparr>last_decree = 105, confirmed_decree = -1\<rparr>
     = Inr ((example_duplicator DS_START)\<lparr>progress := \<lparr>last_decree = 105, confirmed_decree = 100\<rparr>\<rparr>)
   \<and> update_progress_calls (example_duplicator DS_START)
        [\<lparr>last_decree = 105, confirmed_decree = -1\<rparr>, \<lparr>last_decree = 105, confirmed_decree = 105\<rparr>]
     = Inr [(example_duplicator DS_START)\<lparr>progress := \<lparr>last_decree = 105, confirmed_decree = 100\<rparr>\<rparr>,
            (example_duplicator DS_START)\<lparr>progress := \<lparr>last_decree = 105, confirmed_decree = 105\<rparr>\<rparr>]
   \<and> sorted (map (\<lambda>t. confirmed_decree (progress t))
        [example_duplicator DS_START,
         (example_duplicator DS_START)\<lparr>progress := \<lparr>last_decree = 105, confirmed_decree = 100\<rparr>\<rparr>,
         (example_duplicator DS_START)\<lparr>progress := \<lparr>last_decree = 105, confirmed_decree = 105\<rparr>\<rparr>])
   \<and> list_all (\<lambda>t. confirmed_decree (progress t) \<le> last_decree (progress t))
        [(example_duplicator DS_START)\<lparr>progress := \<lparr>last_decree = 105, confirmed_decree = 100\<rparr>\<rparr>,
         (example_duplicator DS_START)\<lparr>progress := \<lparr>last_decree = 105, confirmed_decree = 105\<rparr>\<rparr>]"
  using update_progress_max_and_monotone
    [of "example_duplicator DS_START" "\<lparr>last_decree = 105, confirmed_decree = -1\<rparr>"
        "(example_duplicator DS_START)\<lparr>progress := \<lparr>last_decree = 105, confirmed_decree = 100\<rparr>\<rparr>"
        "[\<lparr>last_decree = 105, confirmed_decree = -1\<rparr>, \<lparr>last_decree = 105, confirmed_decree = 105\<rparr>]"
        "[(example_duplicator DS_START)\<lparr>progress := \<lparr>last_decree = 105, confirmed_decree = 100\<rparr>\<rparr>,
          (example_duplicator DS_START)\<lparr>progress := \<lparr>last_decree = 105, confirmed_decree = 105\<rparr>\<rparr>]"]
  by (simp add: update_progress_def dassert_replica_def Let_def example_defs)

text \<open>
  C3: for every decree \<open>d\<close>, \<open>verify_start_decree(d)\<close> returns an error of the corruption
  class exactly when the max garbage-collected decree that the replica's private log
  holds for the replica's partition is at least \<open>d\<close>, and it returns success exactly when
  \<open>d\<close> is strictly greater than that decree.
\<close>

theorem verify_start_decree_corruption_iff:
  "((error_s_code (verify_start_decree s d) = ERR_CORRUPTION) =
      (d \<le> max_gced_decree (private_log (replica_of s))
             (app_id (get_gpid (replica_of s)), partition_index (get_gpid (replica_of s)))))
   \<and> ((verify_start_decree s d = error_s_ok) =
      (max_gced_decree (private_log (replica_of s))
         (app_id (get_gpid (replica_of s)), partition_index (get_gpid (replica_of s))) < d))"
  by (auto simp: verify_start_decree_def get_max_gced_decree_def Let_def)

text \<open>
  On the log of the example, collected up to decree 50 for this partition: reading from
  decree 10 or 50 is a corruption, reading from decree 51 succeeds.
\<close>

lemma verify_start_decree_example:
  "error_s_code (verify_start_decree (example_duplicator DS_START) 10) = ERR_CORRUPTION
   \<and> error_s_code (verify_start_decree (example_duplicator DS_START) 50) = ERR_CORRUPTION
   \<and> verify_start_decree (example_duplicator DS_START) 51 = error_s_ok"
  by (simp add: verify_start_decree_def get_max_gced_decree_def Let_def example_defs)

text \<open>
  C9: the document that \<open>to_string\<close> serializes has exactly five members, in this order:
  the task id, the status name, the remote cluster address, the confirmed decree and the
  name of the owning application; the returned string is the writer's output for it.
\<close>

theorem to_string_fields:
  "to_string_document s =
     [(''dupid'', JInt (dup_id s)),
      (''status'', JString (StringRef_cstr (duplication_status_to_string (status s)))),
      (''remote'', JString (StringRef_cstr (remote_cluster_address s))),
      (''confirmed'', JInt (confirmed_decree (progress s))),
      (''app'', JString (app_name (replica_of s)))]
   \<and> map fst (to_string_document s) = [''dupid'', ''status'', ''remote'', ''confirmed'', ''app'']
   \<and> to_string writer s = writer (to_string_document s)"
  by (simp add: to_string_document_def to_string_def SetObject_def AddMember_def Let_def)

lemma replica_duplicator_ctor_Inr_iff:
  "replica_duplicator_ctor ent r = Inr d \<longleftrightarrow>
     (ent_status ent = DS_START \<or> ent_status ent = DS_PAUSE) \<and>
     (\<exists>c. ent_progress ent (partition_index (get_gpid r)) = Some c \<and>
        d = \<lparr>dup_id = ent_dupid ent,
             remote_cluster_address = ent_remote_address ent,
             replica_of = r,
             status = ent_status ent,
             progress = \<lparr>last_decree = c, confirmed_decree = c\<rparr>,
             last_recorded_confirmed_decree = c,
             pipeline = [Link Load Ship, Link Ship Load, Fork_link Load_private Ship] @
                        (if ent_status ent = DS_START then [Run_pipeline] else [])\<rparr>)"
  by (auto simp: replica_duplicator_ctor_def dassert_replica_def init_metrics_timer_def
      start_def Let_def split: option.splits)

lemma replica_duplicator_ctor_fatal_iff:
  "isl (replica_duplicator_ctor ent r) \<longleftrightarrow>
     \<not> ((ent_status ent = DS_START \<or> ent_status ent = DS_PAUSE) \<and>
        partition_index (get_gpid r) \<in> dom (ent_progress ent))"
  by (auto simp: replica_duplicator_ctor_def dassert_replica_def Let_def split: option.splits)

text \<open>
  C4: for every duplication task descriptor from which the coordinator is constructed,
  \<open>last_decree\<close> equals \<open>confirmed_decree\<close> after construction, and both are the value
  of the descriptor's progress map at this coordinator's partition index.
\<close>

theorem ctor_seeds_progress:
  "replica_duplicator_ctor ent r = Inr d \<Longrightarrow>
   last_decree (progress d) = confirmed_decree (progress d) \<and>
   ent_progress ent (partition_index (get_gpid r)) = Some (confirmed_decree (progress d))"
  by (auto simp: replica_duplicator_ctor_Inr_iff)

theorem ctor_seeds_progress_witness:
  "replica_duplicator_ctor (example_entry DS_PAUSE) example_replica
     = Inr (example_duplicator DS_PAUSE)
   \<and> last_decree (progress (example_duplicator DS_PAUSE)) = 100
   \<and> confirmed_decree (progress (example_duplicator DS_PAUSE)) = 100
   \<and> ent_progress (example_entry DS_PAUSE) (partition_index (get_gpid example_replica))
       = Some 100"
proof -
  have c: "replica_duplicator_ctor (example_entry DS_PAUSE) example_replica
             = Inr (example_duplicator DS_PAUSE)"
    by (simp add: replica_duplicator_ctor_Inr_iff example_defs)
  from ctor_seeds_progress [OF c] c show ?thesis
    by (simp add: example_defs)
qed

text \<open>
  C10: construction halts on an assertion unless the descriptor's status is running or
  paused and its progress map has an entry for this coordinator's partition; when it does
  not halt, \<open>run_pipeline\<close> is called during construction exactly when the descriptor's
  status is running.
\<close>

theorem ctor_preconditions_and_start:
  "(isl (replica_duplicator_ctor ent r) =
      (\<not> ((ent_status ent = DS_START \<or> ent_status ent = DS_PAUSE) \<and>
          partition_index (get_gpid r) \<in> dom (ent_progress ent)))) \<and>
   (replica_duplicator_ctor ent r = Inr d \<longrightarrow>
      (Run_pipeline \<in> set (pipeline d)) = (ent_status ent = DS_START))"
  by (auto simp: replica_duplicator_ctor_fatal_iff replica_duplicator_ctor_Inr_iff)

theorem ctor_preconditions_and_start_witness:
  "replica_duplicator_ctor (example_entry DS_START) example_replica
     = Inr (example_duplicator DS_START)
   \<and> Run_pipeline \<in> set (pipeline (example_duplicator DS_START))
   \<and> replica_duplicator_ctor (example_entry DS_PAUSE) example_replica
     = Inr (example_duplicator DS_PAUSE)
   \<and> Run_pipeline \<notin> set (pipeline (example_duplicator DS_PAUSE))
   \<and> isl (replica_duplicator_ctor (example_entry (DS_OTHER 0)) example_replica)
   \<and> isl (replica_duplicator_ctor ((example_entry DS_START)\<lparr>ent_progress := Map.empty\<rparr>)
        example_replica)"
  using ctor_preconditions_and_start
      [of "example_entry DS_START" example_replica "example_duplicator DS_START"]
    ctor_preconditions_and_start
      [of "example_entry DS_PAUSE" example_replica "example_duplicator DS_PAUSE"]
    ctor_preconditions_and_start
      [of "example_entry (DS_OTHER 0)" example_replica "example_duplicator DS_PAUSE"]
    ctor_preconditions_and_start
      [of "(example_entry DS_START)\<lparr>ent_progress := Map.empty\<rparr>" example_replica
          "example_duplicator DS_PAUSE"]
  by (simp add: replica_duplicator_ctor_Inr_iff example_defs)

text \<open>
  No call of \<open>update_status_if_needed\<close> halts: whatever the requested status, the call
  returns with \<open>_status\<close> set to it. The assertion of the last branch tests a string
  literal, which is true.
\<close>

lemma update_status_if_needed_never_fatal:
  "\<exists>s'. update_status_if_needed s next_status = Inr s' \<and> status s' = next_status"
  by (simp add: update_status_if_needed_def dassert_def literal_as_condition_def
      start_def pause_def Let_def)

text \<open>
  C5 (for every status other than running and paused, \<open>update_status_if_needed\<close> halts
  on an assertion) does not hold of the code: on the running coordinator built by the
  constructor, the request of another status returns normally, with \<open>_status\<close> set to
  that status and no call made on the pipeline.
\<close>

theorem update_status_unexpected_not_fatal:
  "replica_duplicator_ctor (example_entry DS_START) example_replica
     = Inr (example_duplicator DS_START)
   \<and> update_status_if_needed (example_duplicator DS_START) (DS_OTHER 0)
     = Inr ((example_duplicator DS_START)\<lparr>status := DS_OTHER 0\<rparr>)"
  by (simp add: replica_duplicator_ctor_Inr_iff update_status_if_needed_def dassert_def
      literal_as_condition_def Let_def example_defs)

section \<open>Properties of the split coordinator\<close>

subsection \<open>The partition version before the attempt\<close>

lemma version_inv_step:
  assumes "in_split s \<longrightarrow> pre_split_version h = Some (partition_count s - 1)"
    and "\<not> in_split s \<longrightarrow> partition_version s = partition_count s - 1"
  shows "(in_split (fst (parent_step s x)) \<longrightarrow>
            pre_split_version ((s, x, snd (parent_step s x)) # h)
              = Some (partition_count (fst (parent_step s x)) - 1)) \<and>
         (\<not> in_split (fst (parent_step s x)) \<longrightarrow>
            partition_version (fst (parent_step s x))
              = partition_count (fst (parent_step s x)) - 1)"
proof (cases x)
  case (Pair e b)
  with assms show ?thesis
    by (cases e) (auto simp: in_split_def parent_cleanup_split_context_def)
qed

lemma version_inv_run:
  "parent_run s h xs = (s', h') \<Longrightarrow>
   in_split s \<longrightarrow> pre_split_version h = Some (partition_count s - 1) \<Longrightarrow>
   \<not> in_split s \<longrightarrow> partition_version s = partition_count s - 1 \<Longrightarrow>
   (in_split s' \<longrightarrow> pre_split_version h' = Some (partition_count s' - 1)) \<and>
   (\<not> in_split s' \<longrightarrow> partition_version s' = partition_count s' - 1)"
proof (induction xs arbitrary: s h)
  case Nil
  then show ?case by simp
next
  case (Cons x xs)
  from Cons.prems(1) have
    run: "parent_run (fst (parent_step s x)) ((s, x, snd (parent_step s x)) # h) xs = (s', h')"
    by simp
  from version_inv_step [OF Cons.prems(2) Cons.prems(3), of x]
  show ?case
    using Cons.IH [OF run] by blast
qed

lemma ballot_change_step:
  "in_split s \<Longrightarrow> b \<noteq> child_init_ballot s \<Longrightarrow>
   parent_step s (e, b) = (parent_cleanup_split_context s, [])"
  by simp

text \<open>
  C6: in every execution from a parent that is not splitting, when a split attempt is in
  progress and an input is handled under a ballot other than the one recorded at split
  start, the parent ends idle and cleaned up: \<open>_child_gpid\<close> is the null identity (app id
  0), the partition version is the one the parent had before the attempt started, and
  nothing is sent.
\<close>

theorem ballot_change_cleans_up:
  "parent_run (idle_parent g n) [] evs = (s, h) \<Longrightarrow> in_split s \<Longrightarrow>
   b \<noteq> child_init_ballot s \<Longrightarrow>
   phase (fst (parent_step s (e, b))) = Idle \<and>
   get_child_gpid (fst (parent_step s (e, b))) = \<lparr>app_id = 0, partition_index = 0\<rparr> \<and>
   Some (get_partition_version (fst (parent_step s (e, b)))) = pre_split_version h \<and>
   snd (parent_step s (e, b)) = []"
proof -
  assume run: "parent_run (idle_parent g n) [] evs = (s, h)"
    and split: "in_split s" and b: "b \<noteq> child_init_ballot s"
  have "\<not> in_split (idle_parent g n)"
    by (simp add: in_split_def idle_parent_def)
  moreover have "partition_version (idle_parent g n) = partition_count (idle_parent g n) - 1"
    by (simp add: idle_parent_def)
  ultimately have "pre_split_version h = Some (partition_count s - 1)"
    using version_inv_run [OF run] split by blast
  with split b show ?thesis
    by (simp add: ballot_change_step parent_cleanup_split_context_def
        get_child_gpid_def get_partition_version_def)
qed

theorem ballot_change_cleans_up_witness:
  "in_split (fst (parent_run example_parent []
       [(Add_child example_child, 7), (States_dispatched, 7), (Child_catch_up 7, 7), (Sync_point_committed, 7)]))
   \<and> get_partition_version (fst (parent_run example_parent []
       [(Add_child example_child, 7), (States_dispatched, 7), (Child_catch_up 7, 7), (Sync_point_committed, 7)]))
       = - 1
   \<and> pre_split_version (snd (parent_run example_parent []
       [(Add_child example_child, 7), (States_dispatched, 7), (Child_catch_up 7, 7), (Sync_point_committed, 7)]))
       = Some 7
   \<and> phase (fst (parent_run example_parent []
       [(Add_child example_child, 7), (States_dispatched, 7), (Child_catch_up 7, 7), (Sync_point_committed, 7),
        (Register_succeeded 16, 8)])) = Idle
   \<and> get_child_gpid (fst (parent_run example_parent []
       [(Add_child example_child, 7), (States_dispatched, 7), (Child_catch_up 7, 7), (Sync_point_committed, 7),
        (Register_succeeded 16, 8)])) = \<lparr>app_id = 0, partition_index = 0\<rparr>
   \<and> get_partition_version (fst (parent_run example_parent []
       [(Add_child example_child, 7), (States_dispatched, 7), (Child_catch_up 7, 7), (Sync_point_committed, 7),
        (Register_succeeded 16, 8)])) = 7"
  using ballot_change_cleans_up
    [of "\<lparr>app_id = 2, partition_index = 3\<rparr>" 8
        "[(Add_child example_child, 7), (States_dispatched, 7), (Child_catch_up 7, 7), (Sync_point_committed, 7)]"
        "fst (parent_run example_parent []
           [(Add_child example_child, 7), (States_dispatched, 7), (Child_catch_up 7, 7), (Sync_point_committed, 7)])"
        "snd (parent_run example_parent []
           [(Add_child example_child, 7), (States_dispatched, 7), (Child_catch_up 7, 7), (Sync_point_committed, 7)])"
        8 "Register_succeeded 16"]
  by (simp add: split_eval)

subsection \<open>Registration after catch-up\<close>

lemma confirm_inv_step:
  assumes "registrations_confirmed h"
    and "child_caught_up s \<longrightarrow> in_split s \<and> caught_up_in_attempt h"
  shows "registrations_confirmed ((s, x, snd (parent_step s x)) # h) \<and>
         (child_caught_up (fst (parent_step s x)) \<longrightarrow>
            in_split (fst (parent_step s x)) \<and>
            caught_up_in_attempt ((s, x, snd (parent_step s x)) # h))"
proof (cases x)
  case (Pair e b)
  with assms show ?thesis
    by (cases e) (auto simp: in_split_def parent_cleanup_split_context_def)
qed

lemma confirm_inv_run:
  "parent_run s h xs = (s', h') \<Longrightarrow> registrations_confirmed h \<Longrightarrow>
   child_caught_up s \<longrightarrow> in_split s \<and> caught_up_in_attempt h \<Longrightarrow>
   registrations_confirmed h' \<and>
   (child_caught_up s' \<longrightarrow> in_split s' \<and> caught_up_in_attempt h')"
proof (induction xs arbitrary: s h)
  case Nil
  then show ?case by simp
next
  case (Cons x xs)
  from Cons.prems(1) have
    run: "parent_run (fst (parent_step s x)) ((s, x, snd (parent_step s x)) # h) xs = (s', h')"
    by simp
  from confirm_inv_step [OF Cons.prems(2) Cons.prems(3), of x]
  show ?case
    using Cons.IH [OF run] by blast
qed

text \<open>
  C8: in every execution from a parent that is not splitting, every register-child
  request that was sent, and any that the next input makes the parent send, is sent on
  the commit of the sync point, in an attempt in which the child had confirmed catch-up
  before: its notification, carrying the ballot recorded at the start of this attempt,
  had arrived while the parent was waiting for it. A stale notification (of an earlier
  attempt, carrying another ballot) does not count. The request carries the child's
  identity and the current ballot. Registration never precedes the confirmation.
\<close>

theorem register_only_after_catch_up:
  "parent_run (idle_parent g n) [] evs = (s, h) \<Longrightarrow>
   registrations_confirmed h \<and>
   (snd (parent_step s (e, b)) \<noteq> [] \<longrightarrow>
      e = Sync_point_committed \<and> in_split s \<and> caught_up_in_attempt h \<and>
      snd (parent_step s (e, b)) = [Register_child (get_child_gpid s) b])"
proof -
  assume run: "parent_run (idle_parent g n) [] evs = (s, h)"
  have "registrations_confirmed []" and "\<not> child_caught_up (idle_parent g n)"
    by (simp_all add: idle_parent_def)
  with confirm_inv_run [OF run]
  have r: "registrations_confirmed h"
    and c: "child_caught_up s \<longrightarrow> in_split s \<and> caught_up_in_attempt h"
    by simp_all
  from c have "snd (parent_step s (e, b)) \<noteq> [] \<longrightarrow>
      e = Sync_point_committed \<and> in_split s \<and> caught_up_in_attempt h \<and>
      snd (parent_step s (e, b)) = [Register_child (get_child_gpid s) b]"
    by (cases e) (auto simp: get_child_gpid_def)
  with r show ?thesis by blast
qed

theorem register_only_after_catch_up_witness:
  "snd (parent_step
          (fst (parent_run example_parent []
             [(Add_child example_child, 7), (States_dispatched, 7), (Child_catch_up 7, 7)]))
          (Sync_point_committed, 7))
     = [Register_child \<lparr>app_id = 2, partition_index = 11\<rparr> 7]
   \<and> caught_up_in_attempt (snd (parent_run example_parent []
             [(Add_child example_child, 7), (States_dispatched, 7), (Child_catch_up 7, 7)]))
   \<and> registrations_confirmed (snd (parent_run example_parent []
             [(Add_child example_child, 7), (States_dispatched, 7), (Child_catch_up 7, 7)]))
   \<and> snd (parent_step
          (fst (parent_run example_parent [] [(Add_child example_child, 7), (States_dispatched, 7)]))
          (Sync_point_committed, 7)) = []
   \<and> snd (parent_step
          (fst (parent_run example_parent []
             [(Add_child example_child, 7), (States_dispatched, 7),
              (States_dispatched, 8),
              (Add_child example_child, 8), (States_dispatched, 8),
              (Child_catch_up 7, 8)]))
          (Sync_point_committed, 8)) = []"
  using register_only_after_catch_up
    [of "\<lparr>app_id = 2, partition_index = 3\<rparr>" 8
        "[(Add_child example_child, 7), (States_dispatched, 7), (Child_catch_up 7, 7)]"
        "fst (parent_run example_parent []
           [(Add_child example_child, 7), (States_dispatched, 7), (Child_catch_up 7, 7)])"
        "snd (parent_run example_parent []
           [(Add_child example_child, 7), (States_dispatched, 7), (Child_catch_up 7, 7)])"
        Sync_point_committed 7]
  by (simp add: split_eval)

end
